theory Spec2Isabelle
  imports Complex_Main "HOL-Library.Sublist"
begin

section \<open>Values, exceptions and library behaviour\<close>

text \<open>
  The extension is Python. A Python \<open>str\<close> is a sequence of code points; a \<open>char\<close>
  holds the code points U+0000 to U+00FF, one \<open>char\<close> per code point, so \<open>length\<close> is
  Python's \<open>len\<close> on such text. The character classes below (\<open>lower\<close>, \<open>\d\<close>,
  \<open>\w\<close>, \<open>strip\<close>) follow Python on that range.

  The values that \<open>json.loads\<close> builds are the datatype \<open>json\<close>. A JSON object is an
  association list read with \<open>map_of\<close>. Numbers are integers: a payload with a fraction
  or an exponent in a number is not covered.
\<close>

datatype json =
    JNull
  | JBool bool
  | JInt int
  | JStr string
  | JArr "json list"
  | JObj "(string \<times> json) list"

datatype pyexn =
    AttributeError
  | IndexError
  | KeyError
  | TypeError
  | ValueError
  | OverflowError
  | RegexError
  | JSONDecodeError
  | RequestException
  | OtherException

text \<open>
  Behaviour of the Python library that the source calls and does not define: the JSON
  parser (\<open>None\<close> when \<open>json.loads\<close> raises), the expansion of a replacement template
  that contains a backslash (\<open>re.sub\<close> compiles it before searching; \<open>None\<close> when it
  raises \<open>re.error\<close>; the second argument is the matched text), \<open>str\<close> of a list
  or a dict, and \<open>int\<close> of a \<open>str\<close> (\<open>None\<close> when it raises \<open>ValueError\<close>).
\<close>

record pylib =
  json_loads :: "string \<Rightarrow> json option"
  re_template :: "string \<Rightarrow> string \<Rightarrow> string option"
  py_repr :: "json \<Rightarrow> string"
  int_of_str :: "string \<Rightarrow> int option"

definition bind_res :: "'e + 'a \<Rightarrow> ('a \<Rightarrow> 'e + 'b) \<Rightarrow> 'e + 'b" where
  "bind_res m f = (case m of Inl e \<Rightarrow> Inl e | Inr x \<Rightarrow> f x)"

subsection \<open>Characters and strings\<close>

definition lower_char :: "char \<Rightarrow> char" where
  "lower_char c =
     (let n = (of_char c :: nat)
      in if (65 \<le> n \<and> n \<le> 90) \<or> (192 \<le> n \<and> n \<le> 214) \<or> (216 \<le> n \<and> n \<le> 222)
         then char_of (n + 32) else c)"

definition lower :: "string \<Rightarrow> string" where
  "lower s = map lower_char s"

definition is_digit :: "char \<Rightarrow> bool" where
  "is_digit c = (let n = (of_char c :: nat) in 48 \<le> n \<and> n \<le> 57)"

text \<open>\<open>\w\<close> of a \<open>str\<close> pattern: \<open>[a-zA-Z0-9_]\<close> and every code point that \<open>isalnum\<close> accepts.\<close>

definition is_word_char :: "char \<Rightarrow> bool" where
  "is_word_char c =
     (let n = (of_char c :: nat)
      in (48 \<le> n \<and> n \<le> 57) \<or> (65 \<le> n \<and> n \<le> 90) \<or> n = 95 \<or> (97 \<le> n \<and> n \<le> 122)
         \<or> n = 170 \<or> n = 178 \<or> n = 179 \<or> n = 181 \<or> n = 185 \<or> n = 186
         \<or> (188 \<le> n \<and> n \<le> 190) \<or> (192 \<le> n \<and> n \<le> 214) \<or> (216 \<le> n \<and> n \<le> 246)
         \<or> (248 \<le> n \<and> n \<le> 255))"

definition is_space :: "char \<Rightarrow> bool" where
  "is_space c =
     (let n = (of_char c :: nat)
      in (9 \<le> n \<and> n \<le> 13) \<or> (28 \<le> n \<and> n \<le> 32) \<or> n = 133 \<or> n = 160)"

definition strip :: "string \<Rightarrow> string" where
  "strip s = rev (dropWhile is_space (rev (dropWhile is_space s)))"

definition replace_char :: "char \<Rightarrow> char \<Rightarrow> string \<Rightarrow> string" where
  "replace_char a b s = map (\<lambda>c. if c = a then b else c) s"

text \<open>\<open>sub in s\<close> on strings.\<close>

fun contains :: "string \<Rightarrow> string \<Rightarrow> bool" where
  "contains sub [] = (sub = [])"
| "contains sub (c # cs) = (prefix sub (c # cs) \<or> contains sub cs)"

definition digit_char :: "nat \<Rightarrow> char" where
  "digit_char d = char_of (48 + d)"

function show_nat :: "nat \<Rightarrow> string" where
  "show_nat n = (if n < 10 then [digit_char n] else show_nat (n div 10) @ [digit_char (n mod 10)])"
  by pat_completeness auto
termination
  by (relation "measure (\<lambda>n. n)") auto

declare show_nat.simps [simp del]

definition show_int :: "int \<Rightarrow> string" where
  "show_int i = (if i < 0 then CHR ''-'' # show_nat (nat (- i)) else show_nat (nat i))"

text \<open>\<open>str(x)\<close>, as an f-string applies it.\<close>

definition py_str :: "pylib \<Rightarrow> json \<Rightarrow> string" where
  "py_str L v =
     (case v of
        JStr s \<Rightarrow> s
      | JNull \<Rightarrow> ''None''
      | JBool b \<Rightarrow> (if b then ''True'' else ''False'')
      | JInt i \<Rightarrow> show_int i
      | JArr xs \<Rightarrow> py_repr L v
      | JObj kvs \<Rightarrow> py_repr L v)"

text \<open>Truth value of a Python object in \<open>if v:\<close>.\<close>

definition truthy :: "json \<Rightarrow> bool" where
  "truthy v =
     (case v of
        JNull \<Rightarrow> False
      | JBool b \<Rightarrow> b
      | JInt i \<Rightarrow> i \<noteq> 0
      | JStr s \<Rightarrow> s \<noteq> []
      | JArr xs \<Rightarrow> xs \<noteq> []
      | JObj kvs \<Rightarrow> kvs \<noteq> [])"

subsection \<open>Decimal numerals and \<open>float\<close>\<close>

text \<open>
  \<open>float(s)\<close> on a text of digits and dots that starts with a digit, which is all that
  the pattern \<open>(\d+[\d.]*)\<close> can match: more than one dot raises \<open>ValueError\<close>;
  otherwise the decimal value is rounded to the nearest double, ties to even, and a value
  past the largest double becomes \<open>inf\<close>.
\<close>

datatype pyfloat = Fin rat | Inf

fun digits_value :: "int \<Rightarrow> string \<Rightarrow> int" where
  "digits_value acc [] = acc"
| "digits_value acc (c # cs) = digits_value (10 * acc + (of_char c - 48)) cs"

definition decimal_value :: "string \<Rightarrow> rat option" where
  "decimal_value s =
     (let ip = takeWhile (\<lambda>c. c \<noteq> CHR ''.'') s;
          rest = dropWhile (\<lambda>c. c \<noteq> CHR ''.'') s;
          fp = drop 1 rest
      in if CHR ''.'' \<in> set fp then None
         else Some (of_int (digits_value 0 (ip @ fp)) / 10 ^ length fp))"

definition pow2 :: "int \<Rightarrow> rat" where
  "pow2 k = (if 0 \<le> k then 2 ^ nat k else 1 / 2 ^ nat (- k))"

definition round_half_even :: "rat \<Rightarrow> int" where
  "round_half_even q =
     (let f = \<lfloor>q\<rfloor>; r = q - of_int f
      in if r < 1 / 2 then f else if 1 / 2 < r then f + 1
         else if even f then f else f + 1)"

text \<open>The number of binary digits of a positive integer.\<close>

function bit_length :: "int \<Rightarrow> int" where
  "bit_length n = (if n \<le> 0 then 0 else 1 + bit_length (n div 2))"
  by pat_completeness auto
termination
  by (relation "measure nat") auto

declare bit_length.simps [simp del]

text \<open>The exponent \<open>e\<close> with \<open>2 ^ e \<le> q < 2 ^ (e + 1)\<close>, for \<open>q > 0\<close>.\<close>

definition ilog2 :: "rat \<Rightarrow> int" where
  "ilog2 q =
     (let (a, b) = quotient_of q;
          k = bit_length a - bit_length b
      in if pow2 k \<le> q then k else k - 1)"

definition to_double :: "rat \<Rightarrow> pyfloat" where
  "to_double q =
     (if q \<le> 0 then Fin 0
      else let E = max (ilog2 q - 52) (- 1074);
               r = of_int (round_half_even (q / pow2 E)) * pow2 E
           in if pow2 1024 \<le> r then Inf else Fin r)"

definition py_float :: "string \<Rightarrow> pyexn + pyfloat" where
  "py_float s = (case decimal_value s of None \<Rightarrow> Inl ValueError | Some q \<Rightarrow> Inr (to_double q))"

text \<open>\<open>int(x)\<close> of a float: truncation toward zero; \<open>OverflowError\<close> on \<open>inf\<close>.\<close>

definition py_int :: "pyfloat \<Rightarrow> pyexn + int" where
  "py_int x =
     (case x of
        Inf \<Rightarrow> Inl OverflowError
      | Fin q \<Rightarrow> Inr (if 0 \<le> q then \<lfloor>q\<rfloor> else \<lceil>q\<rceil>))"

section \<open>Text normalisation (\<open>UTube.i18n\<close>, \<open>format_views\<close>, \<open>translate_date\<close>)\<close>

text \<open>
  \<open>self.translations\<close> is the dictionary of a translation file: keys and values are
  strings. \<open>i18n\<close> is \<open>self.translations.get(key, default)\<close>.
\<close>

type_synonym transl = "string \<rightharpoonup> string"

definition i18n :: "transl \<Rightarrow> string \<Rightarrow> string \<Rightarrow> string" where
  "i18n tr key dflt = (case tr key of Some s \<Rightarrow> s | None \<Rightarrow> dflt)"

text \<open>\<open>re.search(r'(\d+[\d.]*)', v)\<close>: the leftmost digit and the digits and dots after it.\<close>

definition first_number :: "string \<Rightarrow> string option" where
  "first_number v =
     (case dropWhile (\<lambda>c. \<not> is_digit c) v of
        [] \<Rightarrow> None
      | d # rest \<Rightarrow> Some (d # takeWhile (\<lambda>c. is_digit c \<or> c = CHR ''.'') rest))"

definition int_text :: "pyfloat \<Rightarrow> pyexn + string" where
  "int_text x = bind_res (py_int x) (\<lambda>n. Inr (show_int n))"

text \<open>The body of the \<open>try\<close> of \<open>format_views\<close>, on the text \<open>v\<close> of a non-empty \<open>str\<close>.\<close>

definition format_views_body :: "transl \<Rightarrow> string \<Rightarrow> pyexn + string" where
  "format_views_body tr v0 =
     (let v = replace_char (CHR '','') (CHR ''.'') (lower v0)
      in case first_number v of
           None \<Rightarrow> Inr ''''
         | Some num \<Rightarrow>
             bind_res (py_float num) (\<lambda>num_float.
               let suffix_billion = i18n tr ''suffix_billion'' ''bi'';
                   suffix_million = i18n tr ''suffix_million'' ''mi'';
                   suffix_thousand = i18n tr ''suffix_thousand'' '' mil''
               in if contains ''bi'' v \<or> contains ''b'' v
                  then bind_res (int_text num_float) (\<lambda>d. Inr (d @ '' '' @ suffix_billion))
                  else if contains ''mi'' v
                          \<or> (contains ''m'' v \<and> \<not> contains ''mil'' v \<and> \<not> contains ''k'' v)
                  then bind_res (int_text num_float) (\<lambda>d. Inr (d @ '' '' @ suffix_million))
                  else if contains ''mil'' v \<or> contains ''k'' v
                  then bind_res (int_text num_float) (\<lambda>d. Inr (d @ suffix_thousand))
                  else int_text num_float))"

text \<open>
  \<open>format_views\<close>: a falsy argument gives \<open>""\<close>; a truthy argument that is not a \<open>str\<close>
  raises \<open>AttributeError\<close> at \<open>v.lower()\<close>; the bare \<open>except\<close> turns every exception
  into \<open>""\<close>.
\<close>

definition format_views :: "transl \<Rightarrow> json \<Rightarrow> string" where
  "format_views tr v =
     (case (if \<not> truthy v then Inr ''''
            else case v of JStr s \<Rightarrow> format_views_body tr s | _ \<Rightarrow> Inl AttributeError) of
        Inl e \<Rightarrow> ''''
      | Inr r \<Rightarrow> r)"

text \<open>
  \<open>re.sub(r'\b' + re.escape(w) + r'\b', repl, text)\<close> for a literal replacement: the
  scan goes left to right; \<open>pw\<close> tells whether the character before the current position
  is a word character. \<open>\b\<close> holds where exactly one of the two neighbours is a word
  character, the ends of the text counting as non-word. After a match the scan resumes
  behind it.
\<close>

definition word_boundary :: "bool \<Rightarrow> string \<Rightarrow> bool" where
  "word_boundary pw rest = (pw \<noteq> (case rest of [] \<Rightarrow> False | c # _ \<Rightarrow> is_word_char c))"

function sub_word :: "string \<Rightarrow> string \<Rightarrow> bool \<Rightarrow> string \<Rightarrow> string" where
  "sub_word w repl pw [] = []"
| "sub_word w repl pw (c # cs) =
     (if w \<noteq> [] \<and> word_boundary pw (c # cs) \<and> prefix w (c # cs)
         \<and> word_boundary (is_word_char (last w)) (drop (length w - 1) cs)
      then repl @ sub_word w repl (is_word_char (last w)) (drop (length w - 1) cs)
      else c # sub_word w repl (is_word_char c) cs)"
  by pat_completeness auto
termination
  by (relation "measure (\<lambda>(w, repl, pw, s). length s)") auto

declare sub_word.simps(2) [simp del]

text \<open>
  One pass of the loop of \<open>translate_date\<close>. A replacement with a backslash is a template:
  it is expanded first, and a bad escape raises before any search.
\<close>

definition re_sub_word :: "pylib \<Rightarrow> string \<Rightarrow> string \<Rightarrow> string \<Rightarrow> pyexn + string" where
  "re_sub_word L w tr_w text =
     (if CHR 0x5C \<in> set tr_w
      then (case re_template L tr_w w of
              None \<Rightarrow> Inl RegexError
            | Some repl \<Rightarrow> Inr (sub_word w repl False text))
      else Inr (sub_word w tr_w False text))"

definition words :: "string list" where
  "words = [''ago'', ''hour'', ''hours'', ''day'', ''days'', ''week'', ''weeks'',
            ''month'', ''months'', ''year'', ''years'', ''minute'', ''minutes'']"

fun translate_words :: "pylib \<Rightarrow> transl \<Rightarrow> string list \<Rightarrow> string \<Rightarrow> pyexn + string" where
  "translate_words L tr [] text = Inr text"
| "translate_words L tr (w # ws) text =
     bind_res (re_sub_word L w (i18n tr w w) text) (\<lambda>text'. translate_words L tr ws text')"

text \<open>
  \<open>translate_date\<close>: a falsy argument gives \<open>""\<close>; a truthy argument that is not a \<open>str\<close>
  raises \<open>AttributeError\<close> at \<open>date_str.lower()\<close>, and nothing here catches it.
\<close>

definition translate_date :: "pylib \<Rightarrow> transl \<Rightarrow> json \<Rightarrow> pyexn + string" where
  "translate_date L tr date_str =
     (if \<not> truthy date_str then Inr ''''
      else case date_str of
             JStr s \<Rightarrow> translate_words L tr words (lower s)
           | _ \<Rightarrow> Inl AttributeError)"

text \<open>
  The whole words of a text, for comparison with the scan above: \<open>tokens\<close> cuts a text
  into its maximal runs of word characters and of other characters, in order, and
  \<open>subst_tokens\<close> replaces the runs that are exactly \<open>w\<close>.
\<close>

function tokens :: "string \<Rightarrow> string list" where
  "tokens [] = []"
| "tokens (c # cs) =
     (c # takeWhile (\<lambda>x. is_word_char x = is_word_char c) cs)
       # tokens (dropWhile (\<lambda>x. is_word_char x = is_word_char c) cs)"
  by pat_completeness auto
termination
  by (relation "measure length") (auto simp: length_dropWhile_le less_Suc_eq_le)

definition subst_tokens :: "string \<Rightarrow> string \<Rightarrow> string \<Rightarrow> string" where
  "subst_tokens w repl s = concat (map (\<lambda>t. if t = w then repl else t) (tokens s))"

section \<open>Navigating parsed data\<close>

text \<open>
  \<open>d.get(k, dflt)\<close>: defined on a dict only; any other value has no attribute \<open>get\<close>.
\<close>

definition py_get :: "json \<Rightarrow> string \<Rightarrow> json \<Rightarrow> pyexn + json" where
  "py_get d k dflt =
     (case d of
        JObj kvs \<Rightarrow> Inr (case map_of kvs k of Some v \<Rightarrow> v | None \<Rightarrow> dflt)
      | _ \<Rightarrow> Inl AttributeError)"

text \<open>A chain \<open>d.get(k1, d1).get(k2, d2)...\<close>, left to right.\<close>

fun get_path :: "json \<Rightarrow> (string \<times> json) list \<Rightarrow> pyexn + json" where
  "get_path d [] = Inr d"
| "get_path d ((k, dflt) # rest) =
     (case py_get d k dflt of Inl e \<Rightarrow> Inl e | Inr d' \<Rightarrow> get_path d' rest)"

text \<open>
  \<open>x[0]\<close>: the first element of a list, the first character of a \<open>str\<close>; a dict parsed
  from JSON has string keys only, so the key \<open>0\<close> is missing; other values are not
  subscriptable.
\<close>

definition index0 :: "json \<Rightarrow> pyexn + json" where
  "index0 x =
     (case x of
        JArr xs \<Rightarrow> (case xs of [] \<Rightarrow> Inl IndexError | y # _ \<Rightarrow> Inr y)
      | JStr s \<Rightarrow> (case s of [] \<Rightarrow> Inl IndexError | c # _ \<Rightarrow> Inr (JStr [c]))
      | JObj kvs \<Rightarrow> Inl KeyError
      | _ \<Rightarrow> Inl TypeError)"

text \<open>The elements that \<open>for x in v\<close> visits: a dict yields its keys, a \<open>str\<close> its characters.\<close>

definition py_iter :: "json \<Rightarrow> pyexn + json list" where
  "py_iter v =
     (case v of
        JArr xs \<Rightarrow> Inr xs
      | JObj kvs \<Rightarrow> Inr (map JStr (remdups (map fst kvs)))
      | JStr s \<Rightarrow> Inr (map (\<lambda>c. JStr [c]) s)
      | _ \<Rightarrow> Inl TypeError)"

text \<open>
  The key under which a dict stores a value: lists and dicts are unhashable, and
  \<open>True\<close> and \<open>False\<close> are the keys \<open>1\<close> and \<open>0\<close>.
\<close>

definition dict_key :: "json \<Rightarrow> pyexn + json" where
  "dict_key v =
     (case v of
        JArr xs \<Rightarrow> Inl TypeError
      | JObj kvs \<Rightarrow> Inl TypeError
      | JBool b \<Rightarrow> Inr (JInt (if b then 1 else 0))
      | _ \<Rightarrow> Inr v)"

text \<open>\<open>int(x)\<close> of a preference value.\<close>

definition py_int_of :: "pylib \<Rightarrow> json \<Rightarrow> pyexn + int" where
  "py_int_of L v =
     (case v of
        JInt i \<Rightarrow> Inr i
      | JBool b \<Rightarrow> Inr (if b then 1 else 0)
      | JStr s \<Rightarrow> (case int_of_str L s of None \<Rightarrow> Inl ValueError | Some i \<Rightarrow> Inr i)
      | _ \<Rightarrow> Inl TypeError)"

text \<open>
  \<open>s.split(sep)\<close> for a non-empty separator: the pieces between the occurrences of
  \<open>sep\<close>, found left to right without overlap. The result is never empty.
\<close>

function split_at :: "string \<Rightarrow> string \<Rightarrow> string list" where
  "split_at sep [] = [[]]"
| "split_at sep (c # cs) =
     (if sep \<noteq> [] \<and> prefix sep (c # cs)
      then [] # split_at sep (drop (length sep - 1) cs)
      else (case split_at sep cs of
              [] \<Rightarrow> [[c]]
            | piece # pieces \<Rightarrow> (c # piece) # pieces))"
  by pat_completeness auto
termination
  by (relation "measure (\<lambda>(sep, s). length s)") auto

declare split_at.simps(2) [simp del]

text \<open>\<open>os.path.join(a, b)\<close> on POSIX.\<close>

definition path_join :: "string \<Rightarrow> string \<Rightarrow> string" where
  "path_join a b =
     (if prefix ''/'' b then b
      else if a = [] \<or> last a = CHR ''/'' then a @ b
      else a @ ''/'' @ b)"

section \<open>The extension, the network and the file system\<close>

text \<open>
  What a request of \<open>session.get\<close> does: it raises a \<open>RequestException\<close>, raises
  some other exception, or returns a response with a status code and a body.
  \<open>raise_for_status\<close> raises \<open>HTTPError\<close>, a \<open>RequestException\<close>, on a status from
  400 to 599.
\<close>

datatype http_result = ConnectionFailed | OtherFault | Response nat string

definition status_is_error :: "nat \<Rightarrow> bool" where
  "status_is_error status = (400 \<le> status \<and> status < 600)"

text \<open>
  The surroundings of a run: \<open>http_get n url\<close> is the outcome of the request for \<open>url\<close>
  made when \<open>n\<close> requests have been made before; \<open>image_ok body\<close> tells whether the
  body decodes as an image and goes through the resizing and masking; \<open>save_ok path\<close>
  tells whether \<open>img.save(path)\<close> succeeds.
\<close>

record env =
  http_get :: "nat \<Rightarrow> string \<Rightarrow> http_result"
  image_ok :: "string \<Rightarrow> bool"
  save_ok :: "string \<Rightarrow> bool"

text \<open>The state that changes: the files that exist, and the requests made so far.\<close>

record world =
  files :: "string set"
  fetched :: "string list"

text \<open>
  The extension object: its translation table, its preferences as the host stores them
  (\<open>preferences.get(k, dflt)\<close> reads them), and its cache directory.
\<close>

record extension =
  translations_of :: transl
  preferences :: "string \<rightharpoonup> json"
  cache_dir :: string

definition pref_get :: "extension \<Rightarrow> string \<Rightarrow> json \<Rightarrow> json" where
  "pref_get ext k dflt = (case preferences ext k of Some v \<Rightarrow> v | None \<Rightarrow> dflt)"

definition icon_default :: string where
  "icon_default = ''images/icon.png''"

section \<open>The thumbnail cache (\<open>UTube.download_and_cache\<close>)\<close>

text \<open>
  A file that exists at \<open>path\<close> is returned at once. Otherwise the URL is requested;
  every failure (request, status, decoding, saving) is caught and gives \<open>None\<close>. The
  flag \<open>is_channel\<close> chooses the shape of the mask only, which the model does not look at.
\<close>

definition download_and_cache ::
  "env \<Rightarrow> world \<Rightarrow> string \<Rightarrow> string \<Rightarrow> bool \<Rightarrow> string option \<times> world" where
  "download_and_cache E w path url is_channel =
     (if path \<in> files w then (Some path, w)
      else
        let w1 = w\<lparr>fetched := fetched w @ [url]\<rparr>
        in case http_get E (length (fetched w)) url of
             Response status body \<Rightarrow>
               if status_is_error status then (None, w1)
               else if \<not> image_ok E body then (None, w1)
               else if \<not> save_ok E path then (None, w1)
               else (Some path, w1\<lparr>files := insert path (files w1)\<rparr>)
           | _ \<Rightarrow> (None, w1))"

section \<open>The query pipeline (\<open>KeywordQueryEventListener.on_event\<close>)\<close>

datatype action = OpenUrlAction string

datatype item =
    ExtensionResultItem (icon: string) (name: json) (description: string) (on_enter: "action option")
  | ExtensionSmallResultItem (icon: string) (name: json) (on_enter: "action option")

text \<open>
  The separator of the description templates is U+2022, which no \<open>char\<close> holds; the
  constant stands for it (its three UTF-8 bytes) and is only ever concatenated.
\<close>

definition bullet :: string where
  "bullet = [CHR 0xE2, CHR 0x80, CHR 0xA2]"

definition quoted :: "string \<Rightarrow> string" where
  "quoted s = [CHR 0x27] @ s @ [CHR 0x27]"

definition search_url_of :: "string \<Rightarrow> string" where
  "search_url_of query =
     ''https://www.youtube.com/results?search_query='' @ replace_char (CHR '' '') (CHR ''+'') query"

definition prompt_item :: "extension \<Rightarrow> item" where
  "prompt_item ext =
     ExtensionResultItem icon_default
       (JStr (i18n (translations_of ext) ''search_prompt'' ''Digite para pesquisar no YouTube''))
       [] None"

definition network_error_item :: "extension \<Rightarrow> item" where
  "network_error_item ext =
     ExtensionResultItem icon_default
       (JStr (i18n (translations_of ext) ''network_error'' (''Erro de conex'' @ [CHR 0xE3] @ ''o'')))
       (i18n (translations_of ext) ''search_error_desc'' ''Verifique sua internet e tente novamente'')
       None"

definition fallback_item :: "extension \<Rightarrow> string \<Rightarrow> item" where
  "fallback_item ext query =
     ExtensionResultItem icon_default (JStr (quoted query))
       (i18n (translations_of ext) ''search_browser_line2'' ''Pesquisar no YouTube via navegador'')
       (Some (OpenUrlAction (search_url_of query)))"

definition browser_item :: "extension \<Rightarrow> string \<Rightarrow> item" where
  "browser_item ext query =
     ExtensionResultItem icon_default (JStr (quoted query))
       (i18n (translations_of ext) ''search_browser_line2'' ''Pesquisar no navegador'')
       (Some (OpenUrlAction (search_url_of query)))"

definition internal_error_item :: "extension \<Rightarrow> item" where
  "internal_error_item ext =
     ExtensionResultItem icon_default
       (JStr (i18n (translations_of ext) ''search_error'' ''Ops! Algo deu errado na busca''))
       (i18n (translations_of ext) ''search_error_desc''
          (''Tente novamente ou verifique sua conex'' @ [CHR 0xE3] @ ''o''))
       None"

subsection \<open>Extracting the embedded data\<close>

definition marker_prefix :: string where
  "marker_prefix = ''var ytInitialData = ''"

definition marker_suffix :: string where
  "marker_suffix = '';</script>''"

text \<open>
  \<open>r.text.split(prefix)[1].split(suffix)[0]\<close>: index 1 raises \<open>IndexError\<close> when the
  prefix does not occur; index 0 always exists.
\<close>

definition data_block :: "string \<Rightarrow> pyexn + string" where
  "data_block text =
     (case split_at marker_prefix text of
        _ # after # _ \<Rightarrow>
          (case split_at marker_suffix after of
             [] \<Rightarrow> Inl IndexError
           | block # _ \<Rightarrow> Inr block)
      | _ \<Rightarrow> Inl IndexError)"

definition extract_data :: "pylib \<Rightarrow> string \<Rightarrow> pyexn + json" where
  "extract_data L text =
     bind_res (data_block text) (\<lambda>split_data.
       case json_loads L split_data of None \<Rightarrow> Inl JSONDecodeError | Some data \<Rightarrow> Inr data)"

subsection \<open>Collecting the videos\<close>

text \<open>
  The inner loop: items of one section, appended to \<open>videos\<close>; it breaks when
  \<open>len(videos) >= pref_max\<close>, which is tested after an append only.
\<close>

fun scan_items :: "int \<Rightarrow> json list \<Rightarrow> json list \<Rightarrow> pyexn + json list" where
  "scan_items pref_max videos [] = Inr videos"
| "scan_items pref_max videos (item # item_list) =
     (case py_get item ''videoRenderer'' JNull of
        Inl e \<Rightarrow> Inl e
      | Inr v \<Rightarrow>
          if truthy v
          then (if pref_max \<le> int (length (videos @ [v])) then Inr (videos @ [v])
                else scan_items pref_max (videos @ [v]) item_list)
          else scan_items pref_max videos item_list)"

definition section_items :: "json \<Rightarrow> pyexn + json list" where
  "section_items section =
     bind_res (get_path section [(''itemSectionRenderer'', JObj []), (''contents'', JArr [])]) py_iter"

text \<open>The outer loop: it breaks after a section when \<open>len(videos) >= pref_max\<close>.\<close>

fun scan_sections :: "int \<Rightarrow> json list \<Rightarrow> json list \<Rightarrow> pyexn + json list" where
  "scan_sections pref_max videos [] = Inr videos"
| "scan_sections pref_max videos (section # contents) =
     (case section_items section of
        Inl e \<Rightarrow> Inl e
      | Inr item_list \<Rightarrow>
          (case scan_items pref_max videos item_list of
             Inl e \<Rightarrow> Inl e
           | Inr videos' \<Rightarrow>
               if pref_max \<le> int (length videos') then Inr videos'
               else scan_sections pref_max videos' contents))"

definition section_list :: "json \<Rightarrow> pyexn + json" where
  "section_list data =
     get_path data
       [(''contents'', JObj []), (''twoColumnSearchResultsRenderer'', JObj []),
        (''primaryContents'', JObj []), (''sectionListRenderer'', JObj []),
        (''contents'', JArr [])]"



subsection \<open>Thumbnails\<close>

text \<open>
  A submitted task is the argument triple of \<open>download_and_cache\<close>; \<open>thumb_futures\<close>
  pairs each task with the video id it was submitted for, in submission order.
  \<open>thumb_paths\<close> is a dict from video ids to icon paths.
\<close>

type_synonym task = "string \<times> string \<times> bool"
type_synonym thumb_futures = "(task \<times> json) list"
type_synonym thumb_paths = "json \<rightharpoonup> string"

definition first_of :: "json \<Rightarrow> (string \<times> json) list \<Rightarrow> pyexn + json" where
  "first_of v path = bind_res (get_path v path) index0"

text \<open>The channel identity of a video: the \<open>browseId\<close> of its first byline run, else the video id.\<close>

definition chan_id_of :: "json \<Rightarrow> json \<Rightarrow> pyexn + json" where
  "chan_id_of v v_id =
     bind_res (first_of v [(''longBylineText'', JObj []), (''runs'', JArr [JObj []])]) (\<lambda>chan_data.
       get_path chan_data
         [(''navigationEndpoint'', JObj []), (''browseEndpoint'', JObj []), (''browseId'', v_id)])"

definition img_path_of :: "pylib \<Rightarrow> string \<Rightarrow> bool \<Rightarrow> json \<Rightarrow> json \<Rightarrow> string" where
  "img_path_of L dir is_ch chan_id v_id =
     path_join dir
       ((if is_ch then ''c'' else ''v'') @ ''_'' @ py_str L (if is_ch then chan_id else v_id) @ ''.png'')"

text \<open>The first lines of the loop body: the video id and the cache file of a video.\<close>

definition video_key :: "pylib \<Rightarrow> string \<Rightarrow> json \<Rightarrow> json \<Rightarrow> pyexn + json \<times> string" where
  "video_key L dir pref_thumb v =
     bind_res (py_get v ''videoId'' JNull) (\<lambda>v_id.
       bind_res (chan_id_of v v_id) (\<lambda>chan_id.
         Inr (v_id, img_path_of L dir (pref_thumb = JStr ''channel'') chan_id v_id)))"

definition thumb_url_of :: "bool \<Rightarrow> json \<Rightarrow> pyexn + json" where
  "thumb_url_of is_ch v =
     bind_res
       (if is_ch
        then first_of v
               [(''channelThumbnailSupportedRenderers'', JObj []),
                (''channelThumbnailWithLinkRenderer'', JObj []),
                (''thumbnail'', JObj []), (''thumbnails'', JArr [JObj []])]
        else first_of v [(''thumbnail'', JObj []), (''thumbnails'', JArr [JObj []])])
       (\<lambda>t. py_get t ''url'' JNull)"

text \<open>
  \<open>t_url.startswith('//')\<close> needs a \<open>str\<close>; a protocol-relative URL gets the scheme.
\<close>

definition absolute_url :: "json \<Rightarrow> pyexn + string" where
  "absolute_url t_url =
     (case t_url of
        JStr u \<Rightarrow> Inr (if prefix ''//'' u then ''https:'' @ u else u)
      | _ \<Rightarrow> Inl AttributeError)"

definition set_path :: "thumb_paths \<Rightarrow> json \<Rightarrow> string \<Rightarrow> pyexn + thumb_paths" where
  "set_path paths v_id p = bind_res (dict_key v_id) (\<lambda>k. Inr (paths(k \<mapsto> p)))"

text \<open>
  One pass of the first loop over \<open>videos\<close>, against the files \<open>fs\<close> that exist when
  the video is examined: mode \<open>none\<close> assigns the default icon, an existing file is
  taken, and otherwise a task is submitted when the video has a thumbnail URL.
\<close>

definition thumb_step ::
  "pylib \<Rightarrow> string set \<Rightarrow> string \<Rightarrow> json \<Rightarrow> json \<Rightarrow> thumb_futures \<times> thumb_paths
     \<Rightarrow> pyexn + thumb_futures \<times> thumb_paths" where
  "thumb_step L fs dir pref_thumb v st =
     (case st of (futs, paths) \<Rightarrow>
        bind_res (video_key L dir pref_thumb v) (\<lambda>(v_id, img_path).
          if pref_thumb = JStr ''none''
          then bind_res (set_path paths v_id icon_default) (\<lambda>paths'. Inr (futs, paths'))
          else if img_path \<in> fs
          then bind_res (set_path paths v_id img_path) (\<lambda>paths'. Inr (futs, paths'))
          else
            bind_res (thumb_url_of (pref_thumb = JStr ''channel'') v) (\<lambda>t_url.
              if truthy t_url
              then bind_res (absolute_url t_url) (\<lambda>u.
                     Inr (futs @ [((img_path, u, pref_thumb = JStr ''channel''), v_id)], paths))
              else Inr (futs, paths))))"

text \<open>
  The first loop. An exception leaves it at once; the tasks submitted before stay
  submitted, so the state reached is returned with it.
\<close>

fun dispatch ::
  "pylib \<Rightarrow> string set \<Rightarrow> string \<Rightarrow> json \<Rightarrow> json list \<Rightarrow> thumb_futures \<times> thumb_paths
     \<Rightarrow> pyexn option \<times> thumb_futures \<times> thumb_paths" where
  "dispatch L fs dir pref_thumb [] st = (None, st)"
| "dispatch L fs dir pref_thumb (v # videos) st =
     (case thumb_step L fs dir pref_thumb v st of
        Inl e \<Rightarrow> (Some e, st)
      | Inr st' \<Rightarrow> dispatch L fs dir pref_thumb videos st')"

text \<open>
  The worker pool. The model runs the submitted tasks one after the other, in submission
  order, after the first loop has ended: the schedule in which no download finishes while
  the coordinator is still examining videos. Each task is a call of
  \<open>download_and_cache\<close>, which catches its own exceptions.
\<close>

fun run_tasks :: "env \<Rightarrow> world \<Rightarrow> thumb_futures \<Rightarrow> (json \<times> string option) list \<times> world" where
  "run_tasks E w [] = ([], w)"
| "run_tasks E w (((path, url, is_ch), v_id) # futs) =
     (case download_and_cache E w path url is_ch of
        (res, w') \<Rightarrow>
          (case run_tasks E w' futs of
             (results, w'') \<Rightarrow> ((v_id, res) # results, w'')))"

text \<open>The loop over \<open>as_completed\<close>: \<open>thumb_paths[v_id] = res if res else icon_default\<close>.\<close>

fun collect :: "thumb_paths \<Rightarrow> (json \<times> string option) list \<Rightarrow> pyexn + thumb_paths" where
  "collect paths [] = Inr paths"
| "collect paths ((v_id, res) # results) =
     (case set_path paths v_id
             (case res of None \<Rightarrow> icon_default | Some p \<Rightarrow> if p = [] then icon_default else p) of
        Inl e \<Rightarrow> Inl e
      | Inr paths' \<Rightarrow> collect paths' results)"

subsection \<open>Rendering\<close>

text \<open>The body of the last loop: the item of one video, or none for an unknown layout.\<close>

definition render_video ::
  "pylib \<Rightarrow> extension \<Rightarrow> json \<Rightarrow> thumb_paths \<Rightarrow> json \<Rightarrow> pyexn + item list" where
  "render_video L ext pref_layout paths v =
     bind_res (py_get v ''videoId'' JNull) (\<lambda>v_id.
     bind_res (first_of v [(''title'', JObj []), (''runs'', JArr [JObj []])]) (\<lambda>title_run.
     bind_res (py_get title_run ''text'' (JStr ''No title'')) (\<lambda>title.
     bind_res (first_of v [(''longBylineText'', JObj []), (''runs'', JArr [JObj []])]) (\<lambda>chan_run.
     bind_res (py_get chan_run ''text'' (JStr ''Channel'')) (\<lambda>chan.
     bind_res (get_path v [(''lengthText'', JObj []), (''simpleText'', JStr ''LIVE'')]) (\<lambda>dur.
     bind_res (get_path v [(''shortViewCountText'', JObj []), (''simpleText'', JStr [])]) (\<lambda>views_text.
     bind_res (get_path v [(''publishedTimeText'', JObj []), (''simpleText'', JStr [])]) (\<lambda>pub_text.
     bind_res (translate_date L (translations_of ext) pub_text) (\<lambda>pub.
     bind_res (dict_key v_id) (\<lambda>k.
       let views = format_views (translations_of ext) views_text;
           current_icon = (case paths k of Some p \<Rightarrow> p | None \<Rightarrow> icon_default);
           link = Some (OpenUrlAction (''https://www.youtube.com/watch?v='' @ py_str L v_id));
           pub_part = (if pub \<noteq> [] then '' '' @ bullet @ '' '' @ pub else [])
       in if pref_layout = JStr ''layout_classic''
          then Inr [ExtensionResultItem current_icon title
                      (py_str L dur @ '' '' @ bullet @ '' '' @ py_str L chan @ pub_part) link]
          else if pref_layout = JStr ''layout_inverted''
          then Inr [ExtensionResultItem current_icon chan
                      (py_str L title @ '' '' @ bullet @ '' '' @ py_str L dur @ [CHR 0x0A] @ views
                         @ pub_part) link]
          else if pref_layout = JStr ''layout_minimal''
          then Inr [ExtensionSmallResultItem current_icon
                      (JStr (py_str L chan @ '' '' @ bullet @ '' '' @ py_str L title)) link]
          else Inr []))))))))))"

fun render_videos ::
  "pylib \<Rightarrow> extension \<Rightarrow> json \<Rightarrow> thumb_paths \<Rightarrow> json list \<Rightarrow> pyexn + item list" where
  "render_videos L ext pref_layout paths [] = Inr []"
| "render_videos L ext pref_layout paths (v # videos) =
     (case render_video L ext pref_layout paths v of
        Inl e \<Rightarrow> Inl e
      | Inr its \<Rightarrow>
          (case render_videos L ext pref_layout paths videos of
             Inl e \<Rightarrow> Inl e
           | Inr rest \<Rightarrow> Inr (its @ rest)))"

subsection \<open>The handler\<close>

text \<open>
  From the parsed data to the list of videos: the section list, the preferences (read
  here, where the source reads them), and the two scanning loops.
\<close>

definition find_videos :: "pylib \<Rightarrow> extension \<Rightarrow> json \<Rightarrow> pyexn + json list" where
  "find_videos L ext data =
     bind_res (section_list data) (\<lambda>contents.
     bind_res (py_int_of L (pref_get ext ''max_results'' (JInt 7))) (\<lambda>pref_max.
     bind_res (py_iter contents) (\<lambda>sections.
       scan_sections pref_max [] sections)))"

text \<open>
  The rest of the \<open>try\<close> block once the data is parsed. The tasks submitted by the first
  loop run whether or not a later step raises.
\<close>

definition build_items ::
  "pylib \<Rightarrow> env \<Rightarrow> extension \<Rightarrow> world \<Rightarrow> string \<Rightarrow> json \<Rightarrow> (pyexn + item list) \<times> world" where
  "build_items L E ext w query data =
     (case find_videos L ext data of
        Inl e \<Rightarrow> (Inl e, w)
      | Inr videos \<Rightarrow>
          (case dispatch L (files w) (cache_dir ext) (pref_get ext ''thumb_type'' (JStr ''channel''))
                  videos ([], Map.empty) of
             (raised, futs, paths) \<Rightarrow>
               (case run_tasks E w futs of
                  (results, w') \<Rightarrow>
                    (case raised of
                       Some e \<Rightarrow> (Inl e, w')
                     | None \<Rightarrow>
                         (case collect paths results of
                            Inl e \<Rightarrow> (Inl e, w')
                          | Inr paths' \<Rightarrow>
                              (case render_videos L ext
                                      (pref_get ext ''search_layout'' (JStr ''layout_inverted''))
                                      paths' videos of
                                 Inl e \<Rightarrow> (Inl e, w')
                               | Inr its \<Rightarrow> (Inr (browser_item ext query # its), w')))))))"

text \<open>
  The \<open>try\<close> block: \<open>Inr\<close> is a list that a \<open>return\<close> inside it gives, \<open>Inl\<close> an
  exception that reaches the outer \<open>except Exception\<close>.
\<close>

definition search :: "pylib \<Rightarrow> env \<Rightarrow> extension \<Rightarrow> world \<Rightarrow> string \<Rightarrow> (pyexn + item list) \<times> world" where
  "search L E ext w query =
     (let w1 = w\<lparr>fetched := fetched w @ [search_url_of query]\<rparr>
      in case http_get E (length (fetched w)) (search_url_of query) of
           ConnectionFailed \<Rightarrow> (Inr [network_error_item ext], w1)
         | OtherFault \<Rightarrow> (Inl OtherException, w1)
         | Response status text \<Rightarrow>
             if status_is_error status then (Inr [network_error_item ext], w1)
             else (case extract_data L text of
                     Inl e \<Rightarrow> (Inr [fallback_item ext query], w1)
                   | Inr data \<Rightarrow> build_items L E ext w1 query data))"

text \<open>
  \<open>on_event\<close>: the argument of the event is a \<open>str\<close> or \<open>None\<close>. The result is the list
  given to \<open>RenderResultListAction\<close>, with the state after the call.
\<close>

definition on_event ::
  "pylib \<Rightarrow> env \<Rightarrow> extension \<Rightarrow> world \<Rightarrow> string option \<Rightarrow> item list \<times> world" where
  "on_event L E ext w argument =
     (let query = strip (case argument of None \<Rightarrow> [] | Some a \<Rightarrow> a)
      in if length query < 3 then ([prompt_item ext], w)
         else (case search L E ext w query of
                 (Inl e, w') \<Rightarrow> ([internal_error_item ext], w')
               | (Inr items, w') \<Rightarrow> (items, w')))"

section \<open>Concrete inputs\<close>

text \<open>A library whose parser rejects every text and whose templates never expand.\<close>

definition plain_lib :: pylib where
  "plain_lib = \<lparr> json_loads = (\<lambda>s. None), re_template = (\<lambda>t m. None),
       py_repr = (\<lambda>v. ''?''), int_of_str = (\<lambda>s. None) \<rparr>"

text \<open>An extension with no translation and no preference set, and an empty cache.\<close>

definition plain_ext :: extension where
  "plain_ext = \<lparr> translations_of = Map.empty, preferences = Map.empty,
                  cache_dir = ''/home/user/.cache/ulauncher-yt-speed'' \<rparr>"

definition empty_world :: world where
  "empty_world = \<lparr> files = {}, fetched = [] \<rparr>"

text \<open>A network on which every request fails, and one on which every request is answered.\<close>

definition offline_env :: env where
  "offline_env = \<lparr> http_get = (\<lambda>n url. ConnectionFailed), image_ok = (\<lambda>body. True),
                    save_ok = (\<lambda>path. True) \<rparr>"

definition image_env :: env where
  "image_env = \<lparr> http_get = (\<lambda>n url. Response 200 ''PNG''), image_ok = (\<lambda>body. True),
                  save_ok = (\<lambda>path. True) \<rparr>"

text \<open>
  Videos as the results page describes them: \<open>video i c\<close> has the id \<open>i\<close>, the channel
  \<open>c\<close> in its byline, and a channel thumbnail; \<open>bare_video i\<close> has an id and nothing else.
  \<open>section_of\<close> wraps entries into one section and \<open>payload_of\<close> wraps sections into the
  data of a page.
\<close>

definition obj1 :: "string \<Rightarrow> json \<Rightarrow> json" where
  "obj1 k v = JObj [(k, v)]"

definition video :: "string \<Rightarrow> string \<Rightarrow> json" where
  "video i c =
     JObj [(''videoId'', JStr i),
           (''longBylineText'',
              obj1 ''runs'' (JArr [JObj [(''text'', JStr ''Channel''),
                (''navigationEndpoint'', obj1 ''browseEndpoint'' (obj1 ''browseId'' (JStr c)))]])),
           (''channelThumbnailSupportedRenderers'',
              obj1 ''channelThumbnailWithLinkRenderer''
                (obj1 ''thumbnail'' (obj1 ''thumbnails'' (JArr [obj1 ''url'' (JStr (''//img/'' @ c))]))))]"









section \<open>Properties of the text normalisation\<close>

lemma concat_tokens: "concat (tokens s) = s"
  by (induction s rule: tokens.induct) auto

lemma sub_word_in_word:
  "\<forall>c \<in> set u. is_word_char c \<Longrightarrow> sub_word w r True (u @ rest) = u @ sub_word w r True rest"
  by (induction u) (auto simp: sub_word.simps(2) word_boundary_def)

lemma sub_word_nonword:
  assumes "\<not> is_word_char c" "w \<noteq> []" "is_word_char (hd w)"
  shows "sub_word w r p (c # cs) = c # sub_word w r False cs"
proof -
  have "\<not> prefix w (c # cs)"
    using assms by (cases w) auto
  then show ?thesis
    using assms by (simp add: sub_word.simps(2))
qed

lemma sub_word_nonword_run:
  assumes "w \<noteq> []" "is_word_char (hd w)"
  shows "\<forall>c \<in> set u. \<not> is_word_char c \<Longrightarrow> u \<noteq> [] \<Longrightarrow>
    sub_word w r p (u @ rest) = u @ sub_word w r False rest"
proof (induction u arbitrary: p)
  case Nil then show ?case by simp
next
  case (Cons a u)
  show ?case
  proof (cases "u = []")
    case True
    then show ?thesis using Cons.prems assms by (simp add: sub_word_nonword)
  next
    case False
    then show ?thesis using Cons assms by (simp add: sub_word_nonword)
  qed
qed

lemma prefix_word_run:
  assumes "\<forall>c \<in> set w. is_word_char c"
    "rest = [] \<or> \<not> is_word_char (hd rest)" "prefix w (u @ rest)"
  shows "prefix w u"
proof -
  from assms(3) have "prefix w u \<or> (\<exists>us. w = u @ us \<and> prefix us rest)"
    by (simp add: prefix_append)
  then show ?thesis
  proof (elim disjE exE conjE)
    fix us assume us: "w = u @ us" "prefix us rest"
    show ?thesis
    proof (cases us)
      case Nil
      then show ?thesis using us by simp
    next
      case (Cons x xs)
      with us(2) have "rest \<noteq> []" "hd rest = x" by (auto simp: prefix_def)
      moreover have "is_word_char x" using assms(1) us(1) Cons by simp
      ultimately show ?thesis using assms(2) by simp
    qed
  qed
qed

lemma sub_word_token:
  assumes w: "w \<noteq> []" "\<forall>c \<in> set w. is_word_char c"
    and u: "u \<noteq> []" "\<forall>c \<in> set u. is_word_char c"
    and rest: "rest = [] \<or> \<not> is_word_char (hd rest)"
  shows "sub_word w r False (u @ rest) = (if u = w then r else u) @ sub_word w r True rest"
proof -
  obtain c u' where ueq: "u = c # u'" using u(1) by (cases u) auto
  have lastw: "is_word_char (last w)" using w by simp
  have cw: "is_word_char c" using u(2) ueq by simp
  have unfold: "sub_word w r False (u @ rest) =
    (if prefix w (u @ rest) \<and> word_boundary True (drop (length w - 1) (u' @ rest))
     then r @ sub_word w r True (drop (length w - 1) (u' @ rest))
     else c # sub_word w r True (u' @ rest))"
    unfolding ueq append_Cons
    by (subst sub_word.simps(2)) (simp add: w(1) lastw cw word_boundary_def)
  show ?thesis
  proof (cases "u = w")
    case True
    have d: "drop (length w - 1) (u' @ rest) = rest" using True ueq by auto
    have "word_boundary True rest"
      using rest by (auto simp: word_boundary_def split: list.splits)
    then show ?thesis using True d unfold by simp
  next
    case False
    have nomatch: "\<not> (prefix w (u @ rest) \<and> word_boundary True (drop (length w - 1) (u' @ rest)))"
    proof
      assume a: "prefix w (u @ rest) \<and> word_boundary True (drop (length w - 1) (u' @ rest))"
      then have "prefix w (u @ rest)" by simp
      then have pw: "prefix w u" by (rule prefix_word_run[OF w(2) rest])
      then obtain v where v: "u = w @ v" by (auto simp: prefix_def)
      with False have "v \<noteq> []" by auto
      then obtain x xs where vx: "v = x # xs" by (cases v) auto
      have "drop (length w - 1) (u' @ rest) = drop (length w) (u @ rest)"
        using w(1) ueq by (cases w) auto
      also have "\<dots> = x # xs @ rest" using v vx by simp
      finally have "drop (length w - 1) (u' @ rest) = x # xs @ rest" .
      moreover have "is_word_char x" using v vx u(2) by auto
      ultimately show False using a by (simp add: word_boundary_def)
    qed
    have "sub_word w r False (u @ rest) = c # sub_word w r True (u' @ rest)"
      by (simp only: unfold nomatch if_False)
    also have "\<dots> = c # u' @ sub_word w r True rest"
      using sub_word_in_word[of u' w r rest] u(2) ueq by simp
    finally show ?thesis using False ueq by simp
  qed
qed

lemma sub_word_tokens:
  assumes w: "w \<noteq> []" "\<forall>c \<in> set w. is_word_char c"
  shows "(p \<longrightarrow> s = [] \<or> \<not> is_word_char (hd s)) \<Longrightarrow> sub_word w r p s = subst_tokens w r s"
proof (induction s arbitrary: p rule: tokens.induct)
  case 1
  then show ?case by (simp add: subst_tokens_def)
next
  case (2 c cs)
  let ?P = "\<lambda>x. is_word_char x = is_word_char c"
  let ?u = "c # takeWhile ?P cs"
  let ?rest = "dropWhile ?P cs"
  have split: "c # cs = ?u @ ?rest" by simp
  have hdrest: "?rest = [] \<or> is_word_char (hd ?rest) \<noteq> is_word_char c"
    using hd_dropWhile[of ?P cs] by auto
  have hw: "is_word_char (hd w)" using w by (cases w) auto
  show ?case
  proof (cases "is_word_char c")
    case True
    then have p: "\<not> p" using "2.prems" by simp
    have uw: "\<forall>x \<in> set ?u. is_word_char x"
      using True by (auto dest: set_takeWhileD)
    have r: "?rest = [] \<or> \<not> is_word_char (hd ?rest)" using hdrest True by auto
    have "sub_word w r p (c # cs) = sub_word w r False (?u @ ?rest)"
      using p by simp
    also have "\<dots> = (if ?u = w then r else ?u) @ sub_word w r True ?rest"
      by (rule sub_word_token[OF w _ uw r]) simp
    also have "sub_word w r True ?rest = subst_tokens w r ?rest"
      by (rule "2.IH") (use r in simp)
    finally show ?thesis by (simp add: subst_tokens_def)
  next
    case False
    have un: "\<forall>x \<in> set ?u. \<not> is_word_char x"
      using False by (auto dest: set_takeWhileD)
    have neq: "?u \<noteq> w" using False w hw by (cases w) auto
    have "sub_word w r p (c # cs) = sub_word w r p (?u @ ?rest)" by simp
    also have "\<dots> = ?u @ sub_word w r False ?rest"
      by (rule sub_word_nonword_run[OF w(1) hw un]) simp
    also have "sub_word w r False ?rest = subst_tokens w r ?rest"
      by (rule "2.IH") simp
    finally show ?thesis using neq by (simp add: subst_tokens_def)
  qed
qed

lemma words_word_chars: "\<forall>w \<in> set words. w \<noteq> [] \<and> (\<forall>c \<in> set w. is_word_char c)"
  by (simp add: words_def is_word_char_def)

lemma translate_words_tokens:
  assumes "\<forall>w \<in> set ws. w \<noteq> [] \<and> (\<forall>c \<in> set w. is_word_char c) \<and> CHR 0x5C \<notin> set (i18n tr w w)"
  shows "translate_words L tr ws t = Inr (foldl (\<lambda>t w. subst_tokens w (i18n tr w w) t) t ws)"
  using assms
proof (induction ws arbitrary: t)
  case Nil
  then show ?case by simp
next
  case (Cons w ws)
  then have w: "w \<noteq> []" "\<forall>c \<in> set w. is_word_char c" "CHR 0x5C \<notin> set (i18n tr w w)"
    by simp_all
  have "re_sub_word L w (i18n tr w w) t = Inr (subst_tokens w (i18n tr w w) t)"
    using w(3) sub_word_tokens[OF w(1,2), of False t] by (simp add: re_sub_word_def)
  then show ?case using Cons by (simp add: bind_res_def)
qed

lemma subst_tokens_other: "tokens t = [t] \<Longrightarrow> t \<noteq> w \<Longrightarrow> subst_tokens w r t = t"
  by (simp add: subst_tokens_def)

lemma foldl_subst_other:
  "tokens t = [t] \<Longrightarrow> t \<notin> set ws \<Longrightarrow> foldl (\<lambda>t w. subst_tokens w (f w) t) t ws = t"
  by (induction ws) (auto simp: subst_tokens_other)

lemma lower_Today: "lower ''Today'' = ''today''"
  by code_simp

lemma tokens_today: "tokens ''today'' = [''today'']"
  by code_simp

text \<open>
  Claim C4, as the code has it. \<open>translate_date\<close> lower-cases the whole text first.
  After that, for each vocabulary word in turn, it replaces exactly the whole words (the
  maximal runs of word characters) equal to that word and leaves every other run as it
  is, provided no translation contains a backslash (such a translation is a template).
  ``Today'' contains ``day'' only inside a word: it comes back as ``today'', lower-cased
  and otherwise untouched.
\<close>

theorem translate_date_whole_words:
  assumes "\<forall>w \<in> set words. CHR 0x5C \<notin> set (i18n tr w w)"
  shows "translate_date L tr (JStr s) =
           Inr (if s = [] then [] else foldl (\<lambda>t w. subst_tokens w (i18n tr w w) t) (lower s) words)
         \<and> translate_date L tr (JStr ''Today'') = Inr ''today''"
proof -
  have a: "\<forall>w \<in> set words. w \<noteq> [] \<and> (\<forall>c \<in> set w. is_word_char c) \<and> CHR 0x5C \<notin> set (i18n tr w w)"
    using assms words_word_chars by blast
  have gen: "translate_date L tr (JStr s) =
           Inr (if s = [] then [] else foldl (\<lambda>t w. subst_tokens w (i18n tr w w) t) (lower s) words)" for s
    using translate_words_tokens[OF a] by (simp add: translate_date_def truthy_def)
  have "''today'' \<notin> set words" by (simp add: words_def)
  then have "foldl (\<lambda>t w. subst_tokens w (i18n tr w w) t) ''today'' words = ''today''"
    by (rule foldl_subst_other[OF tokens_today, of words "\<lambda>w. i18n tr w w"])
  then have "translate_date L tr (JStr ''Today'') = Inr ''today''"
    by (simp add: gen lower_Today)
  with gen show ?thesis by blast
qed

theorem translate_date_whole_words_witness:
  "translate_date plain_lib [''day'' \<mapsto> ''dia''] (JStr ''1 Day ago'') = Inr ''1 dia ago''"
proof -
  have h: "\<forall>w \<in> set words. CHR 0x5C \<notin> set (i18n [''day'' \<mapsto> ''dia''] w w)"
    by (simp add: words_def i18n_def)
  have "foldl (\<lambda>t w. subst_tokens w (i18n [''day'' \<mapsto> ''dia''] w w) t) (lower ''1 Day ago'') words = ''1 dia ago''"
    by code_simp
  then show ?thesis
    using translate_date_whole_words[OF h, of plain_lib "''1 Day ago''"] by simp
qed

text \<open>
  Claim C4 as stated says that ``Today'' is returned unaltered. It is not: the capital
  letter is lost.
\<close>

theorem translate_date_Today_counterexample:
  "translate_date plain_lib Map.empty (JStr ''Today'') \<noteq> Inr ''Today''"
  by code_simp

text \<open>
  Claim C3: an input whose only magnitude marker is ``mil'' should be classified as
  thousand. The text ``mil'' contains ``mi'', so the million test of the second branch
  accepts it before the thousand branch is reached: ``5 mil'' gets the million suffix
  \<open>mi\<close>, while ``5k'' gets the thousand suffix \<open>mil\<close>.
\<close>

theorem format_views_mil_is_million:
  "format_views Map.empty (JStr ''5 mil'') = ''5 mi''
   \<and> format_views Map.empty (JStr ''5k'') = ''5 mil''"
  by code_simp



















section \<open>Properties of the handler and the cache\<close>

text \<open>
  Claim C5. A query whose stripped text has fewer than three characters gets the single
  prompt item, and the state is the one before the call: no request has been made.
\<close>

theorem short_query_prompt_only:
  assumes "length (strip (case argument of None \<Rightarrow> [] | Some a \<Rightarrow> a)) < 3"
  shows "on_event L E ext w argument = ([prompt_item ext], w)"
  using assms by (simp add: on_event_def Let_def)

theorem short_query_prompt_only_witness:
  "on_event plain_lib image_env plain_ext empty_world (Some '' ab '') = ([prompt_item plain_ext], empty_world)"
proof -
  have "length (strip (case Some '' ab '' of None \<Rightarrow> [] | Some a \<Rightarrow> a)) < 3"
    by code_simp
  then show ?thesis by (rule short_query_prompt_only)
qed

text \<open>
  Claim C8, as the code has it. When a resolution of a key returns its path, resolving
  the same key again (whatever URL and shape are passed) returns the same path and leaves
  the state as it is: no request is made, the second resolution only reads. The first
  resolution made no request either if the file existed already, and exactly one request,
  for its URL, if it did not. So two resolutions in sequence, the first of which returns
  the path, make exactly one request when they start from a miss and none when the file
  was there.
\<close>

theorem cache_hit_no_fetch:
  assumes "download_and_cache E w path url is_ch = (Some path, w1)"
  shows "download_and_cache E w1 path url' is_ch' = (Some path, w1)
         \<and> (path \<in> files w \<longrightarrow> w1 = w)
         \<and> (path \<notin> files w \<longrightarrow> fetched w1 = fetched w @ [url] \<and> files w1 = insert path (files w))"
  using assms
  by (auto simp: download_and_cache_def Let_def split: if_splits http_result.splits)

theorem cache_hit_no_fetch_witness:
  "download_and_cache image_env
     \<lparr> files = {''/c/v_a.png''}, fetched = [''https://img/a''] \<rparr> ''/c/v_a.png'' ''https://img/a'' False
   = (Some ''/c/v_a.png'', \<lparr> files = {''/c/v_a.png''}, fetched = [''https://img/a''] \<rparr>)"
proof -
  have "download_and_cache image_env empty_world ''/c/v_a.png'' ''https://img/a'' False
        = (Some ''/c/v_a.png'', \<lparr> files = {''/c/v_a.png''}, fetched = [''https://img/a''] \<rparr>)"
    by (simp add: download_and_cache_def image_env_def empty_world_def status_is_error_def)
  from cache_hit_no_fetch[OF this] show ?thesis by simp
qed

text \<open>
  Claim C8 as stated gives exactly one request to any two resolutions in sequence. A
  resolution that fails returns \<open>None\<close> and writes no file, so the next one requests the
  URL again: with a network that is down, two resolutions make two requests.
\<close>

theorem failed_fetch_twice_counterexample:
  "fetched (snd (download_and_cache offline_env
                   (snd (download_and_cache offline_env empty_world ''/c/v_a.png'' ''https://img/a'' False))
                   ''/c/v_a.png'' ''https://img/a'' False))
   = [''https://img/a'', ''https://img/a'']"
  by (simp add: download_and_cache_def offline_env_def empty_world_def)

text \<open>
  Every list that the \<open>try\<close> block returns has an item: the single items of the two
  degraded returns, or the item that opens the browser in front of the videos.
\<close>

lemma build_items_nonempty:
  "build_items L E ext w query data = (Inr items, w') \<Longrightarrow> items \<noteq> []"
  by (auto simp: build_items_def split: sum.splits prod.splits option.splits)

lemma search_nonempty:
  "search L E ext w query = (Inr items, w') \<Longrightarrow> items \<noteq> []"
  by (auto simp: search_def Let_def split: http_result.splits if_splits sum.splits
      dest: build_items_nonempty)

text \<open>
  Claim C1. For a query of at least three characters the handler returns a list with at
  least one item on every path. The handler is a total function to lists: an exception
  raised anywhere in the \<open>try\<close> block (any subclass of \<open>Exception\<close>) ends as the single
  generic error item, and none reaches the caller.
\<close>

theorem on_event_never_empty:
  assumes "3 \<le> length (strip (case argument of None \<Rightarrow> [] | Some a \<Rightarrow> a))"
  shows "fst (on_event L E ext w argument) \<noteq> []
         \<and> (\<forall>e w'. search L E ext w (strip (case argument of None \<Rightarrow> [] | Some a \<Rightarrow> a)) = (Inl e, w')
               \<longrightarrow> on_event L E ext w argument = ([internal_error_item ext], w'))"
  using assms
  by (auto simp: on_event_def Let_def split: prod.splits sum.splits dest: search_nonempty)

theorem on_event_never_empty_witness:
  "fst (on_event plain_lib offline_env plain_ext empty_world (Some ''cats'')) \<noteq> []"
proof -
  have "3 \<le> length (strip (case Some ''cats'' of None \<Rightarrow> [] | Some a \<Rightarrow> a))"
    by code_simp
  from on_event_never_empty[OF this] show ?thesis by blast
qed

subsection \<open>The extractor\<close>







subsection \<open>Pages that cannot be parsed\<close>







subsection \<open>Cache keys and submitted tasks\<close>

lemma video_key_channel:
  assumes "video_key L dir (JStr ''channel'') v = Inr (v_id, p)"
  shows "\<exists>c. chan_id_of v v_id = Inr c \<and> p = img_path_of L dir True c v_id
             \<and> py_get v ''videoId'' JNull = Inr v_id"
  using assms by (auto simp: video_key_def bind_res_def split: sum.splits)

lemma img_path_channel: "img_path_of L dir True c i = img_path_of L dir True c j"
  by (simp add: img_path_of_def)

lemma thumb_step_submit:
  assumes "video_key L dir (JStr ''channel'') v = Inr (v_id, p)"
    and "p \<notin> fs"
    and "thumb_url_of True v = Inr (JStr u)" and "u \<noteq> []"
  shows "thumb_step L fs dir (JStr ''channel'') v (futs, paths) =
           Inr (futs @ [((p, if prefix ''//'' u then ''https:'' @ u else u, True), v_id)], paths)"
  using assms by (simp add: thumb_step_def bind_res_def truthy_def absolute_url_def)

text \<open>
  Claim C2, as the code has it. In channel mode two videos with the same channel
  identity have the same cache file. The loop keeps no record of the keys it has seen:
  when that file does not exist while the two videos are examined and both carry a
  thumbnail URL, it submits one task for each of them, two tasks for the same file.
\<close>

theorem same_channel_same_key:
  assumes "video_key L dir (JStr ''channel'') v1 = Inr (id1, p1)"
    and "video_key L dir (JStr ''channel'') v2 = Inr (id2, p2)"
    and "chan_id_of v1 id1 = chan_id_of v2 id2"
  shows "p1 = p2
         \<and> (p1 \<notin> fs \<and> thumb_url_of True v1 = Inr (JStr u1) \<and> u1 \<noteq> []
              \<and> thumb_url_of True v2 = Inr (JStr u2) \<and> u2 \<noteq> []
            \<longrightarrow> dispatch L fs dir (JStr ''channel'') [v1, v2] (futs, paths) =
                  (None,
                   futs @ [((p1, if prefix ''//'' u1 then ''https:'' @ u1 else u1, True), id1),
                           ((p1, if prefix ''//'' u2 then ''https:'' @ u2 else u2, True), id2)],
                   paths))"
proof -
  obtain c1 where c1: "chan_id_of v1 id1 = Inr c1" "p1 = img_path_of L dir True c1 id1"
    using video_key_channel[OF assms(1)] by blast
  obtain c2 where c2: "chan_id_of v2 id2 = Inr c2" "p2 = img_path_of L dir True c2 id2"
    using video_key_channel[OF assms(2)] by blast
  have "c1 = c2" using c1(1) c2(1) assms(3) by simp
  then have eq: "p1 = p2" using c1(2) c2(2) img_path_channel by simp
  have "dispatch L fs dir (JStr ''channel'') [v1, v2] (futs, paths) =
                  (None,
                   futs @ [((p1, if prefix ''//'' u1 then ''https:'' @ u1 else u1, True), id1),
                           ((p1, if prefix ''//'' u2 then ''https:'' @ u2 else u2, True), id2)],
                   paths)"
    if h: "p1 \<notin> fs" "thumb_url_of True v1 = Inr (JStr u1)" "u1 \<noteq> []"
          "thumb_url_of True v2 = Inr (JStr u2)" "u2 \<noteq> []"
  proof -
    have s1: "thumb_step L fs dir (JStr ''channel'') v1 (futs, paths) =
        Inr (futs @ [((p1, if prefix ''//'' u1 then ''https:'' @ u1 else u1, True), id1)], paths)"
      by (rule thumb_step_submit[OF assms(1) h(1) h(2) h(3)])
    have "p2 \<notin> fs" using h(1) eq by simp
    from thumb_step_submit[OF assms(2) this h(4) h(5)]
    have s2: "thumb_step L fs dir (JStr ''channel'') v2
          (futs @ [((p1, if prefix ''//'' u1 then ''https:'' @ u1 else u1, True), id1)], paths) =
        Inr ((futs @ [((p1, if prefix ''//'' u1 then ''https:'' @ u1 else u1, True), id1)])
               @ [((p2, if prefix ''//'' u2 then ''https:'' @ u2 else u2, True), id2)], paths)" .
    show ?thesis using s1 s2 eq by simp
  qed
  with eq show ?thesis by blast
qed

theorem same_channel_same_key_witness:
  "dispatch plain_lib {} ''/c'' (JStr ''channel'') [video ''a'' ''UC1'', video ''b'' ''UC1'']
     ([], Map.empty) =
   (None, [((''/c/c_UC1.png'', ''https://img/UC1'', True), JStr ''a''),
           ((''/c/c_UC1.png'', ''https://img/UC1'', True), JStr ''b'')], Map.empty)"
proof -
  have k1: "video_key plain_lib ''/c'' (JStr ''channel'') (video ''a'' ''UC1'') = Inr (JStr ''a'', ''/c/c_UC1.png'')"
    by code_simp
  have k2: "video_key plain_lib ''/c'' (JStr ''channel'') (video ''b'' ''UC1'') = Inr (JStr ''b'', ''/c/c_UC1.png'')"
    by code_simp
  have c: "chan_id_of (video ''a'' ''UC1'') (JStr ''a'') = chan_id_of (video ''b'' ''UC1'') (JStr ''b'')"
    by code_simp
  have u1: "thumb_url_of True (video ''a'' ''UC1'') = Inr (JStr ''//img/UC1'')" by code_simp
  have u2: "thumb_url_of True (video ''b'' ''UC1'') = Inr (JStr ''//img/UC1'')" by code_simp
  from same_channel_same_key[OF k1 k2 c, of "{}" "''//img/UC1''" "''//img/UC1''" "[]" Map.empty] u1 u2
  show ?thesis by simp
qed

text \<open>
  Claim C2 as stated allows at most one task for such a pair. Two videos of the channel
  ``UC1'', an empty cache: two tasks are submitted.
\<close>

theorem same_channel_two_tasks_counterexample:
  "length (fst (snd (dispatch plain_lib {} ''/c'' (JStr ''channel'')
                       [video ''a'' ''UC1'', video ''b'' ''UC1''] ([], Map.empty)))) = 2"
  by code_simp

subsection \<open>Thumbnails switched off\<close>








end
